theory Spec2Isabelle
  imports Main "HOL-Library.Sublist" "HOL-Library.AList"
begin

section \<open>The resource summary of a page load (core/computed/resource-summary.js)\<close>

text \<open>
  The source is JavaScript. Strings are modelled as lists of characters, and the string
  operations the source uses (\<^verbatim>\<open>startsWith\<close>, \<^verbatim>\<open>endsWith\<close>, \<^verbatim>\<open>slice\<close>, \<^verbatim>\<open>===\<close>) as the
  list operations \<^const>\<open>prefix\<close>, \<^const>\<open>suffix\<close>, \<^const>\<open>drop\<close> and equality. A value that
  may be \<^verbatim>\<open>undefined\<close> or \<^verbatim>\<open>null\<close> is an \<open>option\<close>. Sizes and counts are byte and
  request counts, modelled as \<open>int\<close>: JavaScript adds them as doubles, which is exact as
  long as the sums stay below \<open>2 ^ 53\<close>. A call that throws is modelled by a result
  \<open>Inl TypeError\<close>.
\<close>

subsection \<open>Data model\<close>

datatype error = TypeError

text \<open>\<^verbatim>\<open>{count: number, resourceSize: number, transferSize: number}\<close> (line 14).\<close>

record ResourceEntry =
  count :: int
  resourceSize :: int
  transferSize :: int

text \<open>
  Modelled from the spec: the declaration of \<^verbatim>\<open>LH.Artifacts.NetworkRequest\<close> is not part of
  the file. These are the fields that the source reads: \<open>url\<close> is a string,
  \<open>resourceType\<close> is a value of the protocol's enumeration (a string at run time) or
  absent, the two sizes are integers.
\<close>

record NetworkRequest =
  url :: string
  resourceType :: "string option"
  resourceSize :: int
  transferSize :: int

text \<open>
  Modelled from the spec: the declaration of \<^verbatim>\<open>LH.Artifacts.LinkElement\<close> is not part of the
  file. The two fields read by \<^verbatim>\<open>determineFaviconUrls\<close>, both optional.
\<close>

record LinkElement =
  rel :: "string option"
  href :: "string option"

text \<open>
  Modelled from the spec: the declaration of \<^verbatim>\<open>LH.Artifacts.URL\<close> is not part of the file.
  \<^verbatim>\<open>mainDocumentUrl\<close> may be undefined (\<^verbatim>\<open>string|undefined\<close>, line 42).
\<close>

record URLArtifact =
  mainDocumentUrl :: "string option"
  finalDisplayedUrl :: string

text \<open>
  Modelled from the spec: the declaration of \<^verbatim>\<open>LH.Budget\<close> is not part of the file. A budget
  is modelled as far as \<^verbatim>\<open>budget?.options?.firstPartyHostnames\<close> reads it, each step
  optional.
\<close>

record BudgetOptions =
  firstPartyHostnames :: "string list option"

record Budget =
  path :: "string option"
  options :: "BudgetOptions option"

text \<open>
  Modelled from the spec: the declaration of \<^verbatim>\<open>LH.Artifacts.EntityClassification\<close> is not
  part of the file. \<^verbatim>\<open>firstParty\<close> is optional, and an entity has a list of domains.
\<close>

record Entity =
  domains :: "string list"

record EntityClassification =
  firstParty :: "Entity option"

text \<open>
  Modelled from the spec: the functions that the source calls and does not define, taken
  as parameters. They are the collaborators imported from other modules, with the
  signatures of the specification, and the two uses of the built-in \<^verbatim>\<open>URL\<close> constructor,
  which throws a TypeError on a string it cannot parse (\<open>None\<close>).
  \<^item> \<open>getMatchingBudget\<close>: \<^verbatim>\<open>Budget.getMatchingBudget(budgets, url)\<close>;
  \<^item> \<open>isNonNetworkRequest\<close>: \<^verbatim>\<open>NetworkRequest.isNonNetworkRequest(record)\<close>;
  \<^item> \<open>getRootDomain\<close>: \<^verbatim>\<open>Util.getRootDomain(url)\<close>;
  \<^item> \<open>url_hostname u\<close>: \<^verbatim>\<open>new URL(u).hostname\<close>;
  \<^item> \<open>url_resolve r b\<close>: \<^verbatim>\<open>new URL(r, b).href\<close>.
\<close>

record externals =
  getMatchingBudget :: "Budget list option \<Rightarrow> string option \<Rightarrow> Budget option"
  isNonNetworkRequest :: "NetworkRequest \<Rightarrow> bool"
  getRootDomain :: "string \<Rightarrow> string"
  url_hostname :: "string \<Rightarrow> string option"
  url_resolve :: "string \<Rightarrow> string \<Rightarrow> string option"

subsection \<open>determineResourceType (lines 21-33)\<close>

text \<open>
  The table \<^verbatim>\<open>requestToResourceType\<close> is an object literal, so a lookup
  \<^verbatim>\<open>requestToResourceType[k]\<close> finds the six own keys and, for every other \<^verbatim>\<open>k\<close>, what the
  object inherits from \<^verbatim>\<open>Object.prototype\<close>. The inherited members are functions or
  objects, hence truthy, and \<^verbatim>\<open>|| 'other'\<close> does not replace them. The value returned is
  therefore a budget type string (\<open>Str\<close>) or an inherited member (\<open>Inherited\<close>, with the
  name it was found under). \<open>object_prototype_keys\<close> lists the properties of
  \<^verbatim>\<open>Object.prototype\<close> in ECMAScript (with its annex for web browsers).
\<close>

datatype type_value = Str string | Inherited string

definition object_prototype_keys :: "string list" where
  "object_prototype_keys =
     [''constructor'', ''hasOwnProperty'', ''isPrototypeOf'', ''propertyIsEnumerable'',
      ''toLocaleString'', ''toString'', ''valueOf'', ''__proto__'',
      ''__defineGetter__'', ''__defineSetter__'', ''__lookupGetter__'', ''__lookupSetter__'']"

definition requestToResourceType :: "(string \<times> string) list" where
  "requestToResourceType =
     [(''Stylesheet'', ''stylesheet''),
      (''Image'', ''image''),
      (''Media'', ''media''),
      (''Font'', ''font''),
      (''Script'', ''script''),
      (''Document'', ''document'')]"

definition determineResourceType :: "NetworkRequest \<Rightarrow> type_value" where
  "determineResourceType record =
     (case resourceType record of
        None \<Rightarrow> Str ''other''
      | Some t \<Rightarrow>
          if t = [] then Str ''other''
          else (case map_of requestToResourceType t of
                  Some b \<Rightarrow> Str b
                | None \<Rightarrow> if t \<in> set object_prototype_keys then Inherited t
                          else Str ''other''))"



subsection \<open>determineFaviconUrls (lines 45-60)\<close>

text \<open>The callback of \<^verbatim>\<open>LinkElements.filter\<close> (line 49).\<close>

definition isIconLink :: "LinkElement \<Rightarrow> bool" where
  "isIconLink e \<longleftrightarrow> rel e = Some ''icon'' \<or> rel e = Some ''shortcut icon''"

text \<open>The loop of lines 52-57, with the array \<^verbatim>\<open>urls\<close> as accumulator.\<close>

fun pushIconUrls ::
  "(string \<Rightarrow> string \<Rightarrow> string option) \<Rightarrow> string \<Rightarrow> LinkElement list \<Rightarrow> string list
    \<Rightarrow> error + string list" where
  "pushIconUrls resolve base [] urls = Inr urls"
| "pushIconUrls resolve base (linkElement # rest) urls =
     (case href linkElement of
        None \<Rightarrow> pushIconUrls resolve base rest urls
      | Some h \<Rightarrow>
          if h = [] then pushIconUrls resolve base rest urls
          else (case resolve h base of
                  None \<Rightarrow> Inl TypeError
                | Some u \<Rightarrow> pushIconUrls resolve base rest (urls @ [u])))"

definition determineFaviconUrls ::
  "(string \<Rightarrow> string \<Rightarrow> string option) \<Rightarrow> LinkElement list \<Rightarrow> string option
    \<Rightarrow> error + string list" where
  "determineFaviconUrls resolve LinkElements mainUrl =
     (case mainUrl of
        None \<Rightarrow> Inr []
      | Some base \<Rightarrow>
          if base = [] then Inr []
          else
            let iconLinkElements = filter isIconLink LinkElements in
            if length iconLinkElements = 0
            then (case resolve ''/favicon.ico'' base of
                    None \<Rightarrow> Inl TypeError
                  | Some u \<Rightarrow> Inr [u])
            else pushIconUrls resolve base iconLinkElements [])"

subsection \<open>The first-party hosts (lines 83-91)\<close>

text \<open>
  \<^verbatim>\<open>budget?.options?.firstPartyHostnames\<close> is tested for truthiness; an array, even an empty
  one, is truthy, so the test asks whether the list is present. The same holds for the
  array that \<^verbatim>\<open>domains.map(...)\<close> returns on the left of \<^verbatim>\<open>||\<close>.
\<close>

definition firstPartyHosts ::
  "externals \<Rightarrow> URLArtifact \<Rightarrow> Budget option \<Rightarrow> EntityClassification \<Rightarrow> string list" where
  "firstPartyHosts ext URLArtifact budget classifiedEntities =
     (case Option.bind (Option.bind budget options) firstPartyHostnames of
        Some hostnames \<Rightarrow> hostnames
      | None \<Rightarrow>
          (case firstParty classifiedEntities of
             Some entity \<Rightarrow> map (\<lambda>domain. ''*.'' @ domain) (domains entity)
           | None \<Rightarrow> [''*.'' @ getRootDomain ext (finalDisplayedUrl URLArtifact)]))"

subsection \<open>The first-party test (lines 121-127)\<close>

text \<open>The body of the callback of \<^verbatim>\<open>firstPartyHosts.some\<close>, once the URL is parsed.\<close>

definition hostMatches :: "string \<Rightarrow> string \<Rightarrow> bool" where
  "hostMatches hostname hostExp =
     (if prefix ''*.'' hostExp then suffix (drop 2 hostExp) hostname
      else hostname = hostExp)"

text \<open>
  \<^verbatim>\<open>some\<close> calls the callback on each pattern in turn and stops at the first that returns
  true. The callback parses \<^verbatim>\<open>record.url\<close> on each call, so a URL that does not parse throws
  at the first pattern, and is not looked at when there is no pattern.
\<close>

fun isFirstParty :: "(string \<Rightarrow> string option) \<Rightarrow> string list \<Rightarrow> string \<Rightarrow> error + bool" where
  "isFirstParty hostname_of [] u = Inr False"
| "isFirstParty hostname_of (hostExp # rest) u =
     (case hostname_of u of
        None \<Rightarrow> Inl TypeError
      | Some hostname \<Rightarrow>
          if hostMatches hostname hostExp then Inr True
          else isFirstParty hostname_of rest u)"

subsection \<open>summarize (lines 70-136)\<close>

text \<open>
  The summary is an object with nine own keys, modelled as an association list in the
  order of the literal of lines 72-82.
\<close>

type_synonym summary = "(string \<times> ResourceEntry) list"

definition zeroEntry :: ResourceEntry where
  "zeroEntry = \<lparr>count = 0, resourceSize = 0, transferSize = 0\<rparr>"

definition initialSummary :: summary where
  "initialSummary =
     [(''stylesheet'', zeroEntry),
      (''image'', zeroEntry),
      (''media'', zeroEntry),
      (''font'', zeroEntry),
      (''script'', zeroEntry),
      (''document'', zeroEntry),
      (''other'', zeroEntry),
      (''total'', zeroEntry),
      (''third-party'', zeroEntry)]"

text \<open>The callback of \<^verbatim>\<open>networkRecords.filter\<close> (lines 95-111).\<close>

definition keepRecord :: "externals \<Rightarrow> string list \<Rightarrow> NetworkRequest \<Rightarrow> bool" where
  "keepRecord ext faviconUrls record =
     (let ty = determineResourceType record in
      if ty = Str ''other'' \<and> url record \<in> set faviconUrls then False
      else if isNonNetworkRequest ext record then False
      else True)"

text \<open>
  The three statements \<^verbatim>\<open>e.count++; e.resourceSize += ...; e.transferSize += ...\<close> on one
  entry.
\<close>

definition increment :: "NetworkRequest \<Rightarrow> ResourceEntry \<Rightarrow> ResourceEntry" where
  "increment record e =
     e\<lparr>count := count e + 1,
       ResourceEntry.resourceSize := ResourceEntry.resourceSize e + resourceSize record,
       ResourceEntry.transferSize := ResourceEntry.transferSize e + transferSize record\<rparr>"

text \<open>
  \<^verbatim>\<open>resourceSummary[key]\<close> followed by the three statements. Reading \<^verbatim>\<open>.count\<close> of
  \<^verbatim>\<open>undefined\<close> throws a TypeError. An inherited member used as a key is converted to a
  string such as \<^verbatim>\<open>function Object() { [native code] }\<close>, which names no property of the
  summary.
\<close>

definition bump :: "type_value \<Rightarrow> NetworkRequest \<Rightarrow> summary \<Rightarrow> error + summary" where
  "bump ty record resourceSummary =
     (case ty of
        Inherited _ \<Rightarrow> Inl TypeError
      | Str key \<Rightarrow>
          (case map_of resourceSummary key of
             None \<Rightarrow> Inl TypeError
           | Some e \<Rightarrow> Inr (AList.update key (increment record e) resourceSummary)))"

text \<open>The callback of \<^verbatim>\<open>forEach\<close> (lines 111-134).\<close>

definition addRecord ::
  "(string \<Rightarrow> string option) \<Rightarrow> string list \<Rightarrow> NetworkRequest \<Rightarrow> summary \<Rightarrow> error + summary" where
  "addRecord hostname_of hosts record resourceSummary =
     (case bump (determineResourceType record) record resourceSummary of
        Inl e \<Rightarrow> Inl e
      | Inr s1 \<Rightarrow>
          (case bump (Str ''total'') record s1 of
             Inl e \<Rightarrow> Inl e
           | Inr s2 \<Rightarrow>
               (case isFirstParty hostname_of hosts (url record) of
                  Inl e \<Rightarrow> Inl e
                | Inr fp \<Rightarrow>
                    if \<not> fp then bump (Str ''third-party'') record s2
                    else Inr s2)))"

fun forEachRecord ::
  "(string \<Rightarrow> string option) \<Rightarrow> string list \<Rightarrow> NetworkRequest list \<Rightarrow> summary \<Rightarrow> error + summary" where
  "forEachRecord hostname_of hosts [] resourceSummary = Inr resourceSummary"
| "forEachRecord hostname_of hosts (record # rest) resourceSummary =
     (case addRecord hostname_of hosts record resourceSummary of
        Inl e \<Rightarrow> Inl e
      | Inr s' \<Rightarrow> forEachRecord hostname_of hosts rest s')"

definition summarize ::
  "externals \<Rightarrow> NetworkRequest list \<Rightarrow> URLArtifact \<Rightarrow> Budget list option \<Rightarrow> LinkElement list
    \<Rightarrow> EntityClassification \<Rightarrow> error + summary" where
  "summarize ext networkRecords URLArtifact budgets LinkElements classifiedEntities =
     (let resourceSummary = initialSummary;
          budget = getMatchingBudget ext budgets (mainDocumentUrl URLArtifact);
          hosts = firstPartyHosts ext URLArtifact budget classifiedEntities
      in case determineFaviconUrls (url_resolve ext) LinkElements (mainDocumentUrl URLArtifact) of
           Inl e \<Rightarrow> Inl e
         | Inr faviconUrls \<Rightarrow>
             forEachRecord (url_hostname ext) hosts
               (filter (keepRecord ext faviconUrls) networkRecords) resourceSummary)"

subsection \<open>A sample environment\<close>

text \<open>
  Stand-ins for the external functions, used to run the model on examples: a parser for
  URLs of the form \<^verbatim>\<open>https://host/path\<close>, resolution of an absolute URL or an absolute path
  against such a base, and the first budget of the list as the matching one.
\<close>

definition sample_hostname :: "string \<Rightarrow> string option" where
  "sample_hostname u =
     (if prefix ''https://'' u then Some (takeWhile (\<lambda>c. c \<noteq> CHR ''/'') (drop 8 u))
      else None)"

definition sample_resolve :: "string \<Rightarrow> string \<Rightarrow> string option" where
  "sample_resolve r base =
     (if prefix ''https://'' r then Some r
      else if prefix ''/'' r
      then (case sample_hostname base of
              None \<Rightarrow> None
            | Some h \<Rightarrow> Some (''https://'' @ h @ r))
      else None)"

definition sample_ext :: externals where
  "sample_ext =
     \<lparr>getMatchingBudget = (\<lambda>budgets u. case budgets of None \<Rightarrow> None
                                         | Some bs \<Rightarrow> (case bs of [] \<Rightarrow> None | b # _ \<Rightarrow> Some b)),
      isNonNetworkRequest = (\<lambda>record. prefix ''data:'' (url record)),
      getRootDomain = (\<lambda>u. case sample_hostname u of None \<Rightarrow> [] | Some h \<Rightarrow> h),
      url_hostname = sample_hostname,
      url_resolve = sample_resolve\<rparr>"

definition sample_page :: URLArtifact where
  "sample_page =
     \<lparr>mainDocumentUrl = Some ''https://example.com/'',
      finalDisplayedUrl = ''https://example.com/''\<rparr>"

definition sample_records :: "NetworkRequest list" where
  "sample_records =
     [\<lparr>url = ''https://example.com/'', resourceType = Some ''Document'',
       resourceSize = 1000, transferSize = 400\<rparr>,
      \<lparr>url = ''https://cdn.example.com/a.js'', resourceType = Some ''Script'',
       resourceSize = 300, transferSize = 120\<rparr>,
      \<lparr>url = ''https://other.com/b.js'', resourceType = Some ''Script'',
       resourceSize = 50, transferSize = 20\<rparr>,
      \<lparr>url = ''https://example.com/favicon.ico'', resourceType = None,
       resourceSize = 7, transferSize = 7\<rparr>,
      \<lparr>url = ''data:image/png;base64,AAAA'', resourceType = Some ''Image'',
       resourceSize = 4, transferSize = 0\<rparr>,
      \<lparr>url = ''https://other.com/x'', resourceType = Some ''XHR'',
       resourceSize = 10, transferSize = 5\<rparr>]"

subsection \<open>Notions used to state the properties\<close>

text \<open>
  The records that are added to the bucket \<open>key\<close>: those classified as \<open>key\<close>, all of
  them for \<^verbatim>\<open>total\<close>, and those that are not first-party for \<^verbatim>\<open>third-party\<close>.
\<close>

definition contributes ::
  "(string \<Rightarrow> string option) \<Rightarrow> string list \<Rightarrow> string \<Rightarrow> NetworkRequest \<Rightarrow> bool" where
  "contributes hostname_of hosts key record \<longleftrightarrow>
     determineResourceType record = Str key \<or> key = ''total'' \<or>
     (key = ''third-party'' \<and> isFirstParty hostname_of hosts (url record) = Inr False)"

text \<open>An entry after a list of records has been added to it, and the sums of a list.\<close>

definition addAll :: "NetworkRequest list \<Rightarrow> ResourceEntry \<Rightarrow> ResourceEntry" where
  "addAll records e =
     e\<lparr>count := count e + int (length records),
       ResourceEntry.resourceSize :=
         ResourceEntry.resourceSize e + sum_list (map resourceSize records),
       ResourceEntry.transferSize :=
         ResourceEntry.transferSize e + sum_list (map transferSize records)\<rparr>"

definition sumEntry :: "NetworkRequest list \<Rightarrow> ResourceEntry" where
  "sumEntry records =
     \<lparr>count = int (length records),
      resourceSize = sum_list (map resourceSize records),
      transferSize = sum_list (map transferSize records)\<rparr>"

text \<open>The hrefs of the links that have one (\<^verbatim>\<open>if (linkElement.href)\<close>, line 54).\<close>

definition presentHrefs :: "LinkElement list \<Rightarrow> string list" where
  "presentHrefs es =
     concat (map (\<lambda>e. case href e of None \<Rightarrow> [] | Some h \<Rightarrow> if h = [] then [] else [h]) es)"

text \<open>
  The selection of icon links in the words of the specification: the \<^verbatim>\<open>rel\<close> attribute is
  compared after its surrounding white space is trimmed. \<open>trim\<close> is \<^verbatim>\<open>String.prototype.trim\<close>
  on the white space characters of ASCII.
\<close>

definition isWhiteSpace :: "char \<Rightarrow> bool" where
  "isWhiteSpace c \<longleftrightarrow> c \<in> set [CHR '' '', CHR 0x09, CHR 0x0A, CHR 0x0B, CHR 0x0C, CHR 0x0D]"

definition trim :: "string \<Rightarrow> string" where
  "trim s = rev (dropWhile isWhiteSpace (rev (dropWhile isWhiteSpace s)))"

definition spec_isIconLink :: "LinkElement \<Rightarrow> bool" where
  "spec_isIconLink e \<longleftrightarrow>
     (case rel e of
        None \<Rightarrow> False
      | Some r \<Rightarrow> trim r = ''icon'' \<or> trim r = ''shortcut icon'')"

text \<open>The summary that the model computes for the sample records.\<close>

definition sample_result :: summary where
  "sample_result =
     [(''stylesheet'', \<lparr>count = 0, resourceSize = 0, transferSize = 0\<rparr>),
      (''image'', \<lparr>count = 0, resourceSize = 0, transferSize = 0\<rparr>),
      (''media'', \<lparr>count = 0, resourceSize = 0, transferSize = 0\<rparr>),
      (''font'', \<lparr>count = 0, resourceSize = 0, transferSize = 0\<rparr>),
      (''script'', \<lparr>count = 2, resourceSize = 350, transferSize = 140\<rparr>),
      (''document'', \<lparr>count = 1, resourceSize = 1000, transferSize = 400\<rparr>),
      (''other'', \<lparr>count = 1, resourceSize = 10, transferSize = 5\<rparr>),
      (''total'', \<lparr>count = 4, resourceSize = 1360, transferSize = 545\<rparr>),
      (''third-party'', \<lparr>count = 2, resourceSize = 60, transferSize = 25\<rparr>)]"

text \<open>
  The exclusion rule in the words of the specification: a record is dropped when it is
  classified \<^verbatim>\<open>other\<close> and its url is a favicon candidate, or when it is a non-network
  request.
\<close>

definition spec_dropped :: "externals \<Rightarrow> string list \<Rightarrow> NetworkRequest \<Rightarrow> bool" where
  "spec_dropped ext faviconUrls record \<longleftrightarrow>
     (determineResourceType record = Str ''other'' \<and> url record \<in> set faviconUrls) \<or>
     isNonNetworkRequest ext record"

text \<open>
  Three requests for the favicon url of the sample page: one answered as an image, one
  without a resource type, and a \<^verbatim>\<open>data:\<close> url; and the summary that the model computes for
  them.
\<close>

definition sample_favicon_records :: "NetworkRequest list" where
  "sample_favicon_records =
     [\<lparr>url = ''https://example.com/favicon.ico'', resourceType = Some ''Image'',
       resourceSize = 7, transferSize = 3\<rparr>,
      \<lparr>url = ''https://example.com/favicon.ico'', resourceType = None,
       resourceSize = 7, transferSize = 3\<rparr>,
      \<lparr>url = ''data:image/png;base64,AAAA'', resourceType = Some ''Image'',
       resourceSize = 4, transferSize = 0\<rparr>]"

definition sample_favicon_result :: summary where
  "sample_favicon_result =
     [(''stylesheet'', \<lparr>count = 0, resourceSize = 0, transferSize = 0\<rparr>),
      (''image'', \<lparr>count = 1, resourceSize = 7, transferSize = 3\<rparr>),
      (''media'', \<lparr>count = 0, resourceSize = 0, transferSize = 0\<rparr>),
      (''font'', \<lparr>count = 0, resourceSize = 0, transferSize = 0\<rparr>),
      (''script'', \<lparr>count = 0, resourceSize = 0, transferSize = 0\<rparr>),
      (''document'', \<lparr>count = 0, resourceSize = 0, transferSize = 0\<rparr>),
      (''other'', \<lparr>count = 0, resourceSize = 0, transferSize = 0\<rparr>),
      (''total'', \<lparr>count = 1, resourceSize = 7, transferSize = 3\<rparr>),
      (''third-party'', \<lparr>count = 0, resourceSize = 0, transferSize = 0\<rparr>)]"

section \<open>Properties\<close>

subsection \<open>The classifier\<close>

lemma determineResourceType_cases:
  "determineResourceType r \<in>
     Str ` {''stylesheet'', ''image'', ''media'', ''font'', ''script'', ''document'', ''other''}
     \<union> Inherited ` set object_prototype_keys"
  by (auto simp: determineResourceType_def requestToResourceType_def
      split: option.splits if_splits)

lemma determineResourceType_not_aggregate:
  "determineResourceType r \<noteq> Str ''total''" "determineResourceType r \<noteq> Str ''third-party''"
  using determineResourceType_cases [of r] by auto






subsection \<open>The favicon candidates\<close>

text \<open>
  C6, as stated, fails: \<^verbatim>\<open>rel\<close> is compared with \<^verbatim>\<open>===\<close> and is not trimmed, so a link
  whose \<^verbatim>\<open>rel\<close> is \<^verbatim>\<open>" icon"\<close> is selected by the trimmed comparison of the claim and not
  by the code.
\<close>

theorem isIconLink_untrimmed_counterexample:
  "spec_isIconLink \<lparr>rel = Some '' icon'', href = Some ''/i.png''\<rparr> \<and>
   \<not> isIconLink \<lparr>rel = Some '' icon'', href = Some ''/i.png''\<rparr>"
  by (simp add: spec_isIconLink_def isIconLink_def trim_def isWhiteSpace_def)

lemma trim_icon: "trim ''icon'' = ''icon''" "trim ''shortcut icon'' = ''shortcut icon''"
  by (simp_all add: trim_def isWhiteSpace_def)

text \<open>
  C6, amended: a link element is selected as a favicon link if and only if its \<^verbatim>\<open>rel\<close>
  attribute is present and is, as it stands (case-sensitively and without trimming),
  equal to \<^verbatim>\<open>icon\<close> or \<^verbatim>\<open>shortcut icon\<close>. Every selected link is also selected by the
  trimmed comparison, and the two agree on every \<^verbatim>\<open>rel\<close> without surrounding white space.
\<close>

theorem isIconLink_exact:
  "(isIconLink e \<longleftrightarrow> (\<exists>r. rel e = Some r \<and> (r = ''icon'' \<or> r = ''shortcut icon''))) \<and>
   (isIconLink e \<longrightarrow> spec_isIconLink e) \<and>
   (\<forall>r. rel e = Some r \<and> trim r = r \<longrightarrow> (isIconLink e \<longleftrightarrow> spec_isIconLink e))"
  by (auto simp: isIconLink_def spec_isIconLink_def trim_icon split: option.splits)

theorem isIconLink_exact_witness:
  "isIconLink \<lparr>rel = Some ''icon'', href = None\<rparr> \<and>
   isIconLink \<lparr>rel = Some ''shortcut icon'', href = None\<rparr> \<and>
   \<not> isIconLink \<lparr>rel = Some ''Icon'', href = None\<rparr> \<and>
   \<not> isIconLink \<lparr>rel = None, href = None\<rparr> \<and>
   spec_isIconLink \<lparr>rel = Some ''icon'', href = None\<rparr>"
  using isIconLink_exact [of "\<lparr>rel = Some ''icon'', href = None\<rparr>"]
    isIconLink_exact [of "\<lparr>rel = Some ''shortcut icon'', href = None\<rparr>"]
    isIconLink_exact [of "\<lparr>rel = Some ''Icon'', href = None\<rparr>"]
    isIconLink_exact [of "\<lparr>rel = None, href = None\<rparr>"]
  by simp

lemma pushIconUrls_those:
  "pushIconUrls resolve base es urls =
     (case those (map (\<lambda>h. resolve h base) (presentHrefs es)) of
        None \<Rightarrow> Inl TypeError
      | Some us \<Rightarrow> Inr (urls @ us))"
  by (induction es arbitrary: urls)
     (auto simp: presentHrefs_def split: option.splits)

text \<open>
  C5: without a main document URL (undefined or the empty string, the values that
  \<^verbatim>\<open>!mainDocumentUrl\<close> accepts) there is no candidate; with no icon link the only candidate
  is \<^verbatim>\<open>/favicon.ico\<close> resolved against the main document URL; otherwise the candidates
  are the hrefs of the icon links that have one, each resolved against the main document
  URL, in order, and nothing else. A resolution that throws makes the function throw.
\<close>

theorem determineFaviconUrls_branches:
  "((mainUrl = None \<or> mainUrl = Some []) \<longrightarrow>
      determineFaviconUrls resolve LinkElements mainUrl = Inr []) \<and>
   (\<forall>base. mainUrl = Some base \<and> base \<noteq> [] \<and> filter isIconLink LinkElements = [] \<longrightarrow>
      determineFaviconUrls resolve LinkElements mainUrl =
        (case resolve ''/favicon.ico'' base of
           None \<Rightarrow> Inl TypeError
         | Some u \<Rightarrow> Inr [u])) \<and>
   (\<forall>base. mainUrl = Some base \<and> base \<noteq> [] \<and> filter isIconLink LinkElements \<noteq> [] \<longrightarrow>
      determineFaviconUrls resolve LinkElements mainUrl =
        (case those (map (\<lambda>h. resolve h base)
                       (presentHrefs (filter isIconLink LinkElements))) of
           None \<Rightarrow> Inl TypeError
         | Some us \<Rightarrow> Inr us))"
  by (auto simp: determineFaviconUrls_def pushIconUrls_those Let_def split: option.splits)

theorem determineFaviconUrls_branches_witness:
  "determineFaviconUrls sample_resolve [] None = Inr [] \<and>
   determineFaviconUrls sample_resolve [\<lparr>rel = Some ''stylesheet'', href = Some ''/a.css''\<rparr>]
      (Some ''https://example.com/'') = Inr [''https://example.com/favicon.ico''] \<and>
   determineFaviconUrls sample_resolve
      [\<lparr>rel = Some ''icon'', href = Some ''/i.png''\<rparr>,
       \<lparr>rel = Some ''shortcut icon'', href = None\<rparr>,
       \<lparr>rel = Some ''icon'', href = Some ''https://cdn.example.com/j.png''\<rparr>]
      (Some ''https://example.com/'') =
     Inr [''https://example.com/i.png'', ''https://cdn.example.com/j.png'']"
  using determineFaviconUrls_branches [of None sample_resolve "[]"]
    determineFaviconUrls_branches [of "Some ''https://example.com/''" sample_resolve
       "[\<lparr>rel = Some ''stylesheet'', href = Some ''/a.css''\<rparr>]"]
    determineFaviconUrls_branches [of "Some ''https://example.com/''" sample_resolve
       "[\<lparr>rel = Some ''icon'', href = Some ''/i.png''\<rparr>,
         \<lparr>rel = Some ''shortcut icon'', href = None\<rparr>,
         \<lparr>rel = Some ''icon'', href = Some ''https://cdn.example.com/j.png''\<rparr>]"]
  by (simp add: isIconLink_def presentHrefs_def sample_resolve_def sample_hostname_def)

subsection \<open>The exclusion filter\<close>

lemma keepRecord_iff: "keepRecord ext faviconUrls r \<longleftrightarrow> \<not> spec_dropped ext faviconUrls r"
  by (simp add: keepRecord_def spec_dropped_def Let_def)

lemma filter_keepRecord:
  "filter (keepRecord ext faviconUrls) records =
     filter (\<lambda>r. \<not> spec_dropped ext faviconUrls r) records"
  by (rule filter_cong) (simp_all add: keepRecord_iff)

subsection \<open>The party classifier\<close>

lemma hostMatches_iff:
  "hostMatches hostname hostExp \<longleftrightarrow>
     (\<exists>d. hostExp = ''*.'' @ d \<and> suffix d hostname) \<or>
     (\<not> prefix ''*.'' hostExp \<and> hostname = hostExp)"
  by (auto simp: hostMatches_def prefix_def)

lemma isFirstParty_parsed:
  "hostname_of u = Some hostname \<Longrightarrow>
     isFirstParty hostname_of hosts u = Inr (\<exists>hostExp\<in>set hosts. hostMatches hostname hostExp)"
  by (induction hosts) auto

lemma isFirstParty_Nil: "isFirstParty hostname_of [] u = Inr False"
  by simp

text \<open>
  C3: for a request whose url parses, with hostname \<open>hostname\<close>, the first-party test
  returns whether some pattern of the list matches, where a pattern \<^verbatim>\<open>*.d\<close> matches if
  the hostname ends with \<^verbatim>\<open>d\<close> and a pattern that does not begin with \<^verbatim>\<open>*.\<close> matches if
  it is equal to the hostname.
\<close>

theorem isFirstParty_some_pattern:
  assumes "hostname_of u = Some hostname"
  shows "isFirstParty hostname_of hosts u =
     Inr (\<exists>hostExp\<in>set hosts.
            (\<exists>d. hostExp = ''*.'' @ d \<and> suffix d hostname) \<or>
            (\<not> prefix ''*.'' hostExp \<and> hostname = hostExp))"
  using assms isFirstParty_parsed [of hostname_of u hostname hosts]
  by (simp add: hostMatches_iff)

theorem isFirstParty_some_pattern_witness:
  "sample_hostname ''https://cdn.example.com/a.js'' = Some ''cdn.example.com'' \<and>
   isFirstParty sample_hostname [''other.com'', ''*.example.com'']
     ''https://cdn.example.com/a.js'' = Inr True \<and>
   isFirstParty sample_hostname [''example.com'', ''*.other.com'']
     ''https://cdn.example.com/a.js'' = Inr False"
proof -
  have h: "sample_hostname ''https://cdn.example.com/a.js'' = Some ''cdn.example.com''"
    by (simp add: sample_hostname_def)
  have s1: "suffix ''example.com'' ''cdn.example.com''"
    by (simp add: suffix_to_prefix)
  have s2: "\<not> suffix ''other.com'' ''cdn.example.com''"
    by (simp add: suffix_to_prefix)
  show ?thesis
    using h s1 s2
      isFirstParty_some_pattern [of sample_hostname "''https://cdn.example.com/a.js''"
        "''cdn.example.com''" "[''other.com'', ''*.example.com'']"]
      isFirstParty_some_pattern [of sample_hostname "''https://cdn.example.com/a.js''"
        "''cdn.example.com''" "[''example.com'', ''*.other.com'']"]
    by simp
qed

text \<open>
  C4: with \<open>budget\<close> the budget matched to the main document URL, the host patterns are
  the budget's \<^verbatim>\<open>options.firstPartyHostnames\<close> when it has them; otherwise, when there is a
  first-party entity, each of its domains prefixed with \<^verbatim>\<open>*.\<close>; otherwise the single
  pattern \<^verbatim>\<open>*.\<close> followed by the root domain of the final displayed URL.
\<close>

theorem firstPartyHosts_precedence:
  assumes "budget = getMatchingBudget ext budgets (mainDocumentUrl page)"
  shows
  "(\<forall>b opts hostnames.
      budget = Some b \<and> options b = Some opts \<and> firstPartyHostnames opts = Some hostnames \<longrightarrow>
      firstPartyHosts ext page budget classifiedEntities = hostnames) \<and>
   (\<forall>entity.
      (\<forall>b opts. budget = Some b \<and> options b = Some opts \<longrightarrow> firstPartyHostnames opts = None) \<and>
      firstParty classifiedEntities = Some entity \<longrightarrow>
      firstPartyHosts ext page budget classifiedEntities =
        map (\<lambda>domain. ''*.'' @ domain) (domains entity)) \<and>
   ((\<forall>b opts. budget = Some b \<and> options b = Some opts \<longrightarrow> firstPartyHostnames opts = None) \<and>
      firstParty classifiedEntities = None \<longrightarrow>
      firstPartyHosts ext page budget classifiedEntities =
        [''*.'' @ getRootDomain ext (finalDisplayedUrl page)])"
  by (cases budget; cases "Option.bind budget options")
     (auto simp: firstPartyHosts_def Option.bind_eq_Some_conv Option.bind_eq_None_conv)

theorem firstPartyHosts_precedence_witness:
  "firstPartyHosts sample_ext sample_page
     (Some \<lparr>path = None, options = Some \<lparr>firstPartyHostnames = Some [''cdn.example.com'']\<rparr>\<rparr>)
     \<lparr>firstParty = Some \<lparr>domains = [''example.org'']\<rparr>\<rparr> = [''cdn.example.com''] \<and>
   firstPartyHosts sample_ext sample_page
     (Some \<lparr>path = None, options = None\<rparr>)
     \<lparr>firstParty = Some \<lparr>domains = [''example.org'', ''example.net'']\<rparr>\<rparr> =
       [''*.example.org'', ''*.example.net''] \<and>
   firstPartyHosts sample_ext sample_page None \<lparr>firstParty = None\<rparr> = [''*.example.com'']"
proof -
  have b1: "Some \<lparr>path = None,
        options = Some \<lparr>firstPartyHostnames = Some [''cdn.example.com'']\<rparr>\<rparr> =
      getMatchingBudget sample_ext
        (Some [\<lparr>path = None,
           options = Some \<lparr>firstPartyHostnames = Some [''cdn.example.com'']\<rparr>\<rparr>])
        (mainDocumentUrl sample_page)"
    by (simp add: sample_ext_def)
  have b2: "Some \<lparr>path = None, options = None\<rparr> =
      getMatchingBudget sample_ext (Some [\<lparr>path = None, options = None\<rparr>])
        (mainDocumentUrl sample_page)"
    by (simp add: sample_ext_def)
  have b3: "None = getMatchingBudget sample_ext None (mainDocumentUrl sample_page)"
    by (simp add: sample_ext_def)
  have r: "getRootDomain sample_ext (finalDisplayedUrl sample_page) = ''example.com''"
    by (simp add: sample_ext_def sample_page_def sample_hostname_def)
  show ?thesis
    using
      firstPartyHosts_precedence [OF b1,
        of "\<lparr>firstParty = Some \<lparr>domains = [''example.org'']\<rparr>\<rparr>"]
      firstPartyHosts_precedence [OF b2,
        of "\<lparr>firstParty = Some \<lparr>domains = [''example.org'', ''example.net'']\<rparr>\<rparr>"]
      firstPartyHosts_precedence [OF b3, of "\<lparr>firstParty = None\<rparr>"] r
    by simp
qed

subsection \<open>The aggregation loop\<close>

lemma bump_Inr:
  assumes "bump ty r s = Inr s'"
  obtains key e where "ty = Str key" "map_of s key = Some e"
    "s' = AList.update key (increment r e) s"
  using assms by (auto simp: bump_def split: type_value.splits option.splits)

lemma bump_keys: "bump ty r s = Inr s' \<Longrightarrow> map fst s' = map fst s"
  by (erule bump_Inr) (auto simp: update_keys dest: map_of_SomeD intro: rev_image_eqI)

lemma bump_map_of:
  "bump (Str key) r s = Inr s' \<Longrightarrow>
     map_of s' k = (if k = key then map_option (increment r) (map_of s k) else map_of s k)"
  by (erule bump_Inr) (auto simp: update_conv')

lemma addRecord_keys: "addRecord hn hosts r s = Inr s' \<Longrightarrow> map fst s' = map fst s"
  by (auto simp: addRecord_def split: sum.splits if_splits dest!: bump_keys)

lemma addRecord_isFirstParty:
  "addRecord hn hosts r s = Inr s' \<Longrightarrow> \<exists>b. isFirstParty hn hosts (url r) = Inr b"
  by (auto simp: addRecord_def split: sum.splits)

text \<open>One record changes the buckets it contributes to, each by one increment.\<close>

lemma addRecord_map_of:
  assumes "addRecord hn hosts r s = Inr s'"
  shows "map_of s' k =
     (if contributes hn hosts k r then map_option (increment r) (map_of s k) else map_of s k)"
proof -
  from assms obtain s1 s2 fp where
    b1: "bump (determineResourceType r) r s = Inr s1" and
    b2: "bump (Str ''total'') r s1 = Inr s2" and
    fp: "isFirstParty hn hosts (url r) = Inr fp" and
    b3: "if fp then s' = s2 else bump (Str ''third-party'') r s2 = Inr s'"
    by (auto simp: addRecord_def split: sum.splits if_splits)
  from b1 obtain key where key: "determineResourceType r = Str key"
    by (auto elim: bump_Inr)
  have ne: "key \<noteq> ''total''" "key \<noteq> ''third-party''"
    using determineResourceType_not_aggregate [of r] key by auto
  have m1: "map_of s1 k = (if k = key then map_option (increment r) (map_of s k) else map_of s k)"
    using b1 key by (simp add: bump_map_of)
  have m2: "map_of s2 k =
      (if k = ''total'' then map_option (increment r) (map_of s1 k) else map_of s1 k)"
    using b2 by (simp add: bump_map_of)
  show ?thesis
  proof (cases fp)
    case True
    with b3 fp m1 m2 key ne show ?thesis by (auto simp: contributes_def)
  next
    case False
    with b3 have "map_of s' k =
        (if k = ''third-party'' then map_option (increment r) (map_of s2 k) else map_of s2 k)"
      by (simp add: bump_map_of)
    with False fp m1 m2 key ne show ?thesis by (auto simp: contributes_def)
  qed
qed

lemma addAll_Nil: "addAll [] e = e"
  by (simp add: addAll_def)

lemma addAll_Cons: "addAll (r # rs) e = addAll rs (increment r e)"
  by (simp add: addAll_def increment_def)

lemma addAll_zeroEntry: "addAll rs zeroEntry = sumEntry rs"
  by (simp add: addAll_def zeroEntry_def sumEntry_def)

lemma forEachRecord_keys:
  "forEachRecord hn hosts rs s = Inr s' \<Longrightarrow> map fst s' = map fst s"
  by (induction rs arbitrary: s) (auto split: sum.splits dest: addRecord_keys)

lemma forEachRecord_isFirstParty:
  "forEachRecord hn hosts rs s = Inr s' \<Longrightarrow> r \<in> set rs \<Longrightarrow>
     \<exists>b. isFirstParty hn hosts (url r) = Inr b"
  by (induction rs arbitrary: s) (auto split: sum.splits dest: addRecord_isFirstParty)

lemma forEachRecord_map_of:
  "forEachRecord hn hosts rs s = Inr s' \<Longrightarrow>
     map_of s' k = map_option (addAll (filter (contributes hn hosts k) rs)) (map_of s k)"
proof (induction rs arbitrary: s)
  case Nil
  then show ?case by (simp add: addAll_Nil option.map_ident)
next
  case (Cons r rs)
  from Cons.prems obtain s1 where a: "addRecord hn hosts r s = Inr s1"
    and f: "forEachRecord hn hosts rs s1 = Inr s'"
    by (auto split: sum.splits)
  show ?case
    using Cons.IH [OF f] addRecord_map_of [OF a, of k]
    by (auto simp: addAll_Cons option.map_comp comp_def)
qed

lemma summarize_Inr:
  assumes "summarize ext rs page budgets links ce = Inr s"
    and "determineFaviconUrls (url_resolve ext) links (mainDocumentUrl page) = Inr fav"
  shows "forEachRecord (url_hostname ext)
      (firstPartyHosts ext page (getMatchingBudget ext budgets (mainDocumentUrl page)) ce)
      (filter (keepRecord ext fav) rs) initialSummary = Inr s"
  using assms by (simp add: summarize_def Let_def)

lemma initialSummary_keys:
  "map fst initialSummary =
     [''stylesheet'', ''image'', ''media'', ''font'', ''script'', ''document'', ''other'',
      ''total'', ''third-party'']"
  by (simp add: initialSummary_def)

lemma initialSummary_map_of:
  "k \<in> set (map fst initialSummary) \<Longrightarrow> map_of initialSummary k = Some zeroEntry"
  by (auto simp: initialSummary_def)

text \<open>Every bucket of a returned summary holds the sums of the survivors that contribute to it.\<close>

lemma summarize_bucket:
  assumes "summarize ext rs page budgets links ce = Inr s"
    and "determineFaviconUrls (url_resolve ext) links (mainDocumentUrl page) = Inr fav"
    and "k \<in> set (map fst initialSummary)"
  shows "map_of s k = Some (sumEntry (filter (contributes (url_hostname ext)
      (firstPartyHosts ext page (getMatchingBudget ext budgets (mainDocumentUrl page)) ce) k)
      (filter (keepRecord ext fav) rs)))"
  using forEachRecord_map_of [OF summarize_Inr [OF assms(1,2)], of k]
    initialSummary_map_of [OF assms(3)]
  by (simp add: addAll_zeroEntry)

lemma summarize_keys:
  assumes "summarize ext rs page budgets links ce = Inr s"
  shows "map fst s = map fst initialSummary"
proof -
  from assms obtain fav where
    "determineFaviconUrls (url_resolve ext) links (mainDocumentUrl page) = Inr fav"
    by (auto simp: summarize_def Let_def split: sum.splits)
  from forEachRecord_keys [OF summarize_Inr [OF assms this]] show ?thesis .
qed

lemma contributes_total: "contributes hn hosts ''total'' r"
  by (simp add: contributes_def)

lemma contributes_third_party:
  "contributes hn hosts ''third-party'' r \<longleftrightarrow> isFirstParty hn hosts (url r) = Inr False"
  using determineResourceType_not_aggregate [of r] by (simp add: contributes_def)

lemma sumEntry_nonneg:
  assumes "\<forall>r\<in>set rs. 0 \<le> resourceSize r \<and> 0 \<le> transferSize r"
  shows "0 \<le> count (sumEntry rs) \<and> 0 \<le> ResourceEntry.resourceSize (sumEntry rs) \<and>
     0 \<le> ResourceEntry.transferSize (sumEntry rs)"
  using assms by (auto simp: sumEntry_def intro!: sum_list_nonneg)

lemma sumEntry_Nil: "sumEntry [] = zeroEntry"
  by (simp add: sumEntry_def zeroEntry_def)

lemma length_filter_split:
  assumes "\<forall>r\<in>set rs. \<exists>b. f r = Inr b"
  shows "length (filter (\<lambda>r. f r = Inr False) rs) + length (filter (\<lambda>r. f r = Inr True) rs)
     = length rs"
  using assms by (induction rs) auto

lemma bump_succeeds:
  "map_of s key = Some e \<Longrightarrow> \<exists>s'. bump (Str key) r s = Inr s'"
  by (simp add: bump_def)

lemma determineResourceType_Inherited:
  "determineResourceType r = Inherited t \<Longrightarrow> resourceType r = Some t \<and> t \<in> set object_prototype_keys"
  by (auto simp: determineResourceType_def split: option.splits if_splits)

lemma determineResourceType_Str:
  assumes "resourceType r \<notin> Some ` set object_prototype_keys"
  obtains key where "determineResourceType r = Str key" "key \<in> set (map fst initialSummary)"
proof (cases "determineResourceType r")
  case (Str key)
  with determineResourceType_cases [of r] have "key \<in> set (map fst initialSummary)"
    by (auto simp: initialSummary_def)
  with Str that show ?thesis by blast
next
  case (Inherited t)
  with assms determineResourceType_Inherited [of r t] show ?thesis by auto
qed

lemma map_of_key:
  assumes "map fst t = map fst initialSummary" and "k \<in> set (map fst initialSummary)"
  shows "\<exists>e. map_of t k = Some e"
proof -
  from assms have "k \<in> fst ` set t"
    by (metis set_map)
  then show ?thesis
    by (cases "map_of t k") (auto simp: map_of_eq_None_iff)
qed

lemma addRecord_succeeds:
  assumes "map fst s = map fst initialSummary"
    and "resourceType r \<notin> Some ` set object_prototype_keys"
    and "hosts = [] \<or> hn (url r) \<noteq> None"
  shows "\<exists>s'. addRecord hn hosts r s = Inr s'"
proof -
  from assms(2) obtain key where
    key: "determineResourceType r = Str key" "key \<in> set (map fst initialSummary)"
    by (rule determineResourceType_Str)
  from map_of_key [OF assms(1) key(2)] obtain s1 where
    s1: "bump (determineResourceType r) r s = Inr s1"
    using key(1) bump_succeeds by metis
  have k1: "map fst s1 = map fst initialSummary"
    using bump_keys [OF s1] assms(1) by simp
  have "''total'' \<in> set (map fst initialSummary)"
    by (simp add: initialSummary_def)
  from map_of_key [OF k1 this] obtain s2 where s2: "bump (Str ''total'') r s1 = Inr s2"
    using bump_succeeds by metis
  have k2: "map fst s2 = map fst initialSummary"
    using bump_keys [OF s2] k1 by simp
  have "''third-party'' \<in> set (map fst initialSummary)"
    by (simp add: initialSummary_def)
  from map_of_key [OF k2 this] obtain s3 where s3: "bump (Str ''third-party'') r s2 = Inr s3"
    using bump_succeeds by metis
  have "\<exists>b. isFirstParty hn hosts (url r) = Inr b"
  proof (cases "hosts = []")
    case True
    then show ?thesis by auto
  next
    case False
    with assms(3) obtain hostname where "hn (url r) = Some hostname" by auto
    from isFirstParty_parsed [of hn "url r" hostname hosts, OF this] show ?thesis by blast
  qed
  then obtain b where "isFirstParty hn hosts (url r) = Inr b" by blast
  with s1 s2 s3 show ?thesis
    by (simp add: addRecord_def)
qed

lemma forEachRecord_succeeds:
  assumes "map fst s = map fst initialSummary"
    and "\<forall>r\<in>set rs. resourceType r \<notin> Some ` set object_prototype_keys \<and>
            (hosts = [] \<or> hn (url r) \<noteq> None)"
  shows "\<exists>s'. forEachRecord hn hosts rs s = Inr s'"
  using assms
proof (induction rs arbitrary: s)
  case Nil
  then show ?case by simp
next
  case (Cons r rs)
  from Cons.prems(2) have
    r: "resourceType r \<notin> Some ` set object_prototype_keys"
      "hosts = [] \<or> hn (url r) \<noteq> None" and
    rs: "\<forall>r\<in>set rs. resourceType r \<notin> Some ` set object_prototype_keys \<and>
            (hosts = [] \<or> hn (url r) \<noteq> None)"
    by simp_all
  from addRecord_succeeds [of s r hosts hn] Cons.prems(1) r obtain s1 where
    s1: "addRecord hn hosts r s = Inr s1" by blast
  have "map fst s1 = map fst initialSummary"
    using addRecord_keys [OF s1] Cons.prems(1) by simp
  from Cons.IH [OF this rs] obtain s' where "forEachRecord hn hosts rs s1 = Inr s'"
    by blast
  with s1 show ?case
    by simp
qed

text \<open>
  When \<^verbatim>\<open>summarize\<close> returns: the favicon candidates resolve, no surviving record has a
  resource type that names an inherited member, and every surviving url parses unless there
  is no host pattern to test it against.
\<close>

lemma summarize_returns:
  assumes "determineFaviconUrls (url_resolve ext) links (mainDocumentUrl page) = Inr fav"
    and "\<forall>r\<in>set (filter (keepRecord ext fav) rs).
           resourceType r \<notin> Some ` set object_prototype_keys \<and>
           (firstPartyHosts ext page (getMatchingBudget ext budgets (mainDocumentUrl page)) ce = []
            \<or> url_hostname ext (url r) \<noteq> None)"
  shows "\<exists>s. summarize ext rs page budgets links ce = Inr s"
  using assms(1) forEachRecord_succeeds [OF refl assms(2)]
  by (simp add: summarize_def Let_def)

subsection \<open>The sample run\<close>

lemmas sample_defs =
  sample_ext_def sample_records_def sample_page_def sample_resolve_def sample_hostname_def

lemmas model_defs =
  summarize_def firstPartyHosts_def determineFaviconUrls_def keepRecord_def
  determineResourceType_def requestToResourceType_def object_prototype_keys_def
  initialSummary_def zeroEntry_def addRecord_def bump_def increment_def hostMatches_def
  suffix_to_prefix

lemma sample_favicons:
  "determineFaviconUrls (url_resolve sample_ext) [] (mainDocumentUrl sample_page) =
     Inr [''https://example.com/favicon.ico'']"
  by (simp add: sample_defs model_defs)

lemma sample_summary:
  "summarize sample_ext sample_records sample_page None [] \<lparr>firstParty = None\<rparr> =
     Inr sample_result"
  by (simp add: sample_defs model_defs sample_result_def)

lemma sample_survivors:
  "filter (keepRecord sample_ext [''https://example.com/favicon.ico'']) sample_records =
     [\<lparr>url = ''https://example.com/'', resourceType = Some ''Document'',
       resourceSize = 1000, transferSize = 400\<rparr>,
      \<lparr>url = ''https://cdn.example.com/a.js'', resourceType = Some ''Script'',
       resourceSize = 300, transferSize = 120\<rparr>,
      \<lparr>url = ''https://other.com/b.js'', resourceType = Some ''Script'',
       resourceSize = 50, transferSize = 20\<rparr>,
      \<lparr>url = ''https://other.com/x'', resourceType = Some ''XHR'',
       resourceSize = 10, transferSize = 5\<rparr>]"
  by (simp add: sample_defs model_defs)

lemma sample_hosts:
  "firstPartyHosts sample_ext sample_page
     (getMatchingBudget sample_ext None (mainDocumentUrl sample_page)) \<lparr>firstParty = None\<rparr> =
     [''*.example.com'']"
  by (simp add: sample_defs model_defs)

lemma sample_url_hostname: "url_hostname sample_ext = sample_hostname"
  by (simp add: sample_ext_def)

subsection \<open>The summary\<close>

text \<open>
  C1: in a returned summary the \<^verbatim>\<open>total\<close> bucket counts the records that survive the
  exclusion filter, and its sizes are the sums of their resource and transfer sizes.
\<close>

theorem summarize_total:
  assumes "determineFaviconUrls (url_resolve ext) LinkElements (mainDocumentUrl page) = Inr faviconUrls"
    and "summarize ext networkRecords page budgets LinkElements classifiedEntities = Inr s"
  shows "\<exists>e. map_of s ''total'' = Some e \<and>
     count e = int (length (filter (keepRecord ext faviconUrls) networkRecords)) \<and>
     ResourceEntry.resourceSize e =
       sum_list (map resourceSize (filter (keepRecord ext faviconUrls) networkRecords)) \<and>
     ResourceEntry.transferSize e =
       sum_list (map transferSize (filter (keepRecord ext faviconUrls) networkRecords))"
  using summarize_bucket [OF assms(2,1), of "''total''"]
  by (simp add: initialSummary_keys contributes_total sumEntry_def)

theorem summarize_total_witness:
  "determineFaviconUrls (url_resolve sample_ext) [] (mainDocumentUrl sample_page) =
     Inr [''https://example.com/favicon.ico''] \<and>
   summarize sample_ext sample_records sample_page None [] \<lparr>firstParty = None\<rparr> =
     Inr sample_result \<and>
   (\<exists>e. map_of sample_result ''total'' = Some e \<and> count e = 4 \<and>
      ResourceEntry.resourceSize e = 1360 \<and> ResourceEntry.transferSize e = 545)"
  using sample_favicons sample_summary summarize_total [OF sample_favicons sample_summary]
  by (simp add: sample_survivors)

text \<open>
  C7: in a returned summary the count of the \<^verbatim>\<open>third-party\<close> bucket plus the number of
  surviving records that are first-party is the count of the \<^verbatim>\<open>total\<close> bucket, and the
  \<^verbatim>\<open>third-party\<close> bucket holds the count and the sums of the sizes of the surviving
  records that are not first-party.
\<close>

theorem summarize_third_party:
  assumes "determineFaviconUrls (url_resolve ext) LinkElements (mainDocumentUrl page) = Inr faviconUrls"
    and "summarize ext networkRecords page budgets LinkElements classifiedEntities = Inr s"
    and "hosts = firstPartyHosts ext page (getMatchingBudget ext budgets (mainDocumentUrl page))
           classifiedEntities"
    and "survivors = filter (keepRecord ext faviconUrls) networkRecords"
  shows "\<exists>tp tot. map_of s ''third-party'' = Some tp \<and> map_of s ''total'' = Some tot \<and>
     count tp + int (length (filter
         (\<lambda>r. isFirstParty (url_hostname ext) hosts (url r) = Inr True) survivors)) = count tot \<and>
     tp = sumEntry (filter
         (\<lambda>r. isFirstParty (url_hostname ext) hosts (url r) = Inr False) survivors)"
proof -
  have tp: "map_of s ''third-party'' = Some (sumEntry (filter
         (\<lambda>r. isFirstParty (url_hostname ext) hosts (url r) = Inr False) survivors))"
    using summarize_bucket [OF assms(2,1), of "''third-party''"] assms(3,4)
    by (simp add: initialSummary_keys contributes_third_party)
  have tot: "map_of s ''total'' = Some (sumEntry survivors)"
    using summarize_bucket [OF assms(2,1), of "''total''"] assms(4)
    by (simp add: initialSummary_keys contributes_total)
  have "\<forall>r\<in>set survivors. \<exists>b. isFirstParty (url_hostname ext) hosts (url r) = Inr b"
    using forEachRecord_isFirstParty [OF summarize_Inr [OF assms(2,1)]] assms(3,4) by blast
  from length_filter_split [OF this] tp tot show ?thesis
    by (simp add: sumEntry_def)
qed

theorem summarize_third_party_witness:
  "determineFaviconUrls (url_resolve sample_ext) [] (mainDocumentUrl sample_page) =
     Inr [''https://example.com/favicon.ico''] \<and>
   summarize sample_ext sample_records sample_page None [] \<lparr>firstParty = None\<rparr> =
     Inr sample_result \<and>
   (\<exists>tp tot. map_of sample_result ''third-party'' = Some tp \<and>
      map_of sample_result ''total'' = Some tot \<and> count tp + 2 = count tot \<and>
      tp = \<lparr>count = 2, resourceSize = 60, transferSize = 25\<rparr>)"
  using sample_favicons sample_summary
    summarize_third_party [OF sample_favicons sample_summary refl refl]
  by (simp add: sample_survivors sample_hosts sample_url_hostname sample_hostname_def
      hostMatches_def suffix_to_prefix sumEntry_def)

text \<open>
  C9: a returned summary has exactly the nine keys, in the order of the literal; with
  non-negative input sizes every entry has a non-negative count, resource size and
  transfer size; and a bucket to which no surviving record contributes is all zero. A
  summary is returned whenever no surviving record has a resource type naming an inherited
  member and every surviving url parses (or there is no host pattern); for an empty record
  list it is the initial summary, all zero.
\<close>

theorem summarize_nine_buckets:
  assumes "determineFaviconUrls (url_resolve ext) LinkElements (mainDocumentUrl page) = Inr faviconUrls"
    and "\<forall>r\<in>set networkRecords. 0 \<le> resourceSize r \<and> 0 \<le> transferSize r"
    and "hosts = firstPartyHosts ext page (getMatchingBudget ext budgets (mainDocumentUrl page))
           classifiedEntities"
    and "survivors = filter (keepRecord ext faviconUrls) networkRecords"
  shows
    "(\<forall>s. summarize ext networkRecords page budgets LinkElements classifiedEntities = Inr s \<longrightarrow>
        map fst s =
          [''stylesheet'', ''image'', ''media'', ''font'', ''script'', ''document'', ''other'',
           ''total'', ''third-party''] \<and>
        (\<forall>k\<in>set (map fst s). \<exists>e. map_of s k = Some e \<and>
           0 \<le> count e \<and> 0 \<le> ResourceEntry.resourceSize e \<and>
           0 \<le> ResourceEntry.transferSize e \<and>
           ((\<forall>r\<in>set survivors. \<not> contributes (url_hostname ext) hosts k r) \<longrightarrow>
              e = \<lparr>count = 0, resourceSize = 0, transferSize = 0\<rparr>))) \<and>
     ((\<forall>r\<in>set survivors. resourceType r \<notin> Some ` set object_prototype_keys \<and>
          (hosts = [] \<or> url_hostname ext (url r) \<noteq> None)) \<longrightarrow>
        (\<exists>s. summarize ext networkRecords page budgets LinkElements classifiedEntities = Inr s)) \<and>
     (networkRecords = [] \<longrightarrow>
        summarize ext networkRecords page budgets LinkElements classifiedEntities =
          Inr initialSummary)"
proof (intro conjI allI impI ballI)
  fix s
  assume s: "summarize ext networkRecords page budgets LinkElements classifiedEntities = Inr s"
  show "map fst s =
       [''stylesheet'', ''image'', ''media'', ''font'', ''script'', ''document'', ''other'',
        ''total'', ''third-party'']"
    using summarize_keys [OF s] by (simp add: initialSummary_keys)
  fix k assume "k \<in> set (map fst s)"
  then have k: "k \<in> set (map fst initialSummary)"
    using summarize_keys [OF s] by simp
  let ?rs = "filter (contributes (url_hostname ext) hosts k) survivors"
  have e: "map_of s k = Some (sumEntry ?rs)"
    using summarize_bucket [OF s assms(1) k] assms(3,4) by simp
  have "\<forall>r\<in>set ?rs. 0 \<le> resourceSize r \<and> 0 \<le> transferSize r"
    using assms(2,4) by simp
  from sumEntry_nonneg [OF this] have nn: "0 \<le> count (sumEntry ?rs) \<and>
      0 \<le> ResourceEntry.resourceSize (sumEntry ?rs) \<and>
      0 \<le> ResourceEntry.transferSize (sumEntry ?rs)" .
  have z: "(\<forall>r\<in>set survivors. \<not> contributes (url_hostname ext) hosts k r) \<longrightarrow>
      sumEntry ?rs = \<lparr>count = 0, resourceSize = 0, transferSize = 0\<rparr>"
    by (simp add: sumEntry_def filter_False)
  show "\<exists>e. map_of s k = Some e \<and>
        0 \<le> count e \<and> 0 \<le> ResourceEntry.resourceSize e \<and> 0 \<le> ResourceEntry.transferSize e \<and>
        ((\<forall>r\<in>set survivors. \<not> contributes (url_hostname ext) hosts k r) \<longrightarrow>
           e = \<lparr>count = 0, resourceSize = 0, transferSize = 0\<rparr>)"
    using e nn z by blast
next
  assume "\<forall>r\<in>set survivors. resourceType r \<notin> Some ` set object_prototype_keys \<and>
          (hosts = [] \<or> url_hostname ext (url r) \<noteq> None)"
  then show "\<exists>s. summarize ext networkRecords page budgets LinkElements classifiedEntities = Inr s"
    using summarize_returns [OF assms(1), where rs = networkRecords and budgets = budgets
        and ce = classifiedEntities] assms(3,4)
    by simp
next
  assume "networkRecords = []"
  then show "summarize ext networkRecords page budgets LinkElements classifiedEntities =
      Inr initialSummary"
    using assms(1) by (simp add: summarize_def Let_def)
qed

theorem summarize_nine_buckets_witness:
  "determineFaviconUrls (url_resolve sample_ext) [] (mainDocumentUrl sample_page) =
     Inr [''https://example.com/favicon.ico''] \<and>
   summarize sample_ext sample_records sample_page None [] \<lparr>firstParty = None\<rparr> =
     Inr sample_result \<and>
   map fst sample_result =
       [''stylesheet'', ''image'', ''media'', ''font'', ''script'', ''document'', ''other'',
        ''total'', ''third-party''] \<and>
   (\<exists>e. map_of sample_result ''image'' = Some e \<and> 0 \<le> count e \<and>
      0 \<le> ResourceEntry.resourceSize e \<and> 0 \<le> ResourceEntry.transferSize e \<and>
      e = \<lparr>count = 0, resourceSize = 0, transferSize = 0\<rparr>) \<and>
   summarize sample_ext [] sample_page None [] \<lparr>firstParty = None\<rparr> = Inr initialSummary"
proof -
  have nn: "\<forall>r\<in>set sample_records. 0 \<le> resourceSize r \<and> 0 \<le> transferSize r"
    by (simp add: sample_records_def)
  have img: "\<forall>r\<in>set (filter (keepRecord sample_ext [''https://example.com/favicon.ico''])
        sample_records).
      \<not> contributes (url_hostname sample_ext)
          (firstPartyHosts sample_ext sample_page
            (getMatchingBudget sample_ext None (mainDocumentUrl sample_page))
            \<lparr>firstParty = None\<rparr>) ''image'' r"
    by (simp add: sample_survivors contributes_def determineResourceType_def
        requestToResourceType_def object_prototype_keys_def)
  have key: "''image'' \<in> set (map fst sample_result)"
    by (simp add: sample_result_def)
  have shape: "map fst sample_result =
       [''stylesheet'', ''image'', ''media'', ''font'', ''script'', ''document'', ''other'',
        ''total'', ''third-party''] \<and>
     (\<exists>e. map_of sample_result ''image'' = Some e \<and> 0 \<le> count e \<and>
      0 \<le> ResourceEntry.resourceSize e \<and> 0 \<le> ResourceEntry.transferSize e \<and>
      e = \<lparr>count = 0, resourceSize = 0, transferSize = 0\<rparr>)"
    using summarize_nine_buckets [OF sample_favicons nn refl refl, where budgets = None
        and classifiedEntities = "\<lparr>firstParty = None\<rparr>"] sample_summary img key
    by blast
  have nn0: "\<forall>r\<in>set ([] :: NetworkRequest list). 0 \<le> resourceSize r \<and> 0 \<le> transferSize r"
    by simp
  have empty: "summarize sample_ext [] sample_page None [] \<lparr>firstParty = None\<rparr> =
      Inr initialSummary"
    using summarize_nine_buckets [OF sample_favicons nn0 refl refl, where budgets = None
        and classifiedEntities = "\<lparr>firstParty = None\<rparr>"]
    by simp
  from sample_favicons sample_summary shape empty show ?thesis
    by blast
qed

text \<open>
  C10: when the matching budget gives no first-party hostnames and the first-party entity
  has an empty list of domains, the list of host patterns is empty (the root domain is not
  used), and in a returned summary the \<^verbatim>\<open>third-party\<close> bucket counts every surviving
  record: it holds the same entry as \<^verbatim>\<open>total\<close>.
\<close>

theorem summarize_empty_domains:
  assumes "\<forall>b opts. getMatchingBudget ext budgets (mainDocumentUrl page) = Some b \<and>
       options b = Some opts \<longrightarrow> firstPartyHostnames opts = None"
    and "firstParty classifiedEntities = Some entity"
    and "domains entity = []"
  shows "firstPartyHosts ext page (getMatchingBudget ext budgets (mainDocumentUrl page))
       classifiedEntities = [] \<and>
     (\<forall>faviconUrls s.
        determineFaviconUrls (url_resolve ext) LinkElements (mainDocumentUrl page) = Inr faviconUrls \<and>
        summarize ext networkRecords page budgets LinkElements classifiedEntities = Inr s \<longrightarrow>
        map_of s ''third-party'' =
          Some (sumEntry (filter (keepRecord ext faviconUrls) networkRecords)) \<and>
        map_of s ''third-party'' = map_of s ''total'')"
proof -
  have h: "firstPartyHosts ext page (getMatchingBudget ext budgets (mainDocumentUrl page))
       classifiedEntities = []"
    using assms
    by (cases "getMatchingBudget ext budgets (mainDocumentUrl page)";
        cases "Option.bind (getMatchingBudget ext budgets (mainDocumentUrl page)) options")
       (auto simp: firstPartyHosts_def Option.bind_eq_Some_conv Option.bind_eq_None_conv)
  have "map_of s ''third-party'' =
          Some (sumEntry (filter (keepRecord ext faviconUrls) networkRecords)) \<and>
        map_of s ''third-party'' = map_of s ''total''"
    if "determineFaviconUrls (url_resolve ext) LinkElements (mainDocumentUrl page) = Inr faviconUrls"
      and "summarize ext networkRecords page budgets LinkElements classifiedEntities = Inr s"
    for faviconUrls s
    using summarize_bucket [OF that(2,1), of "''third-party''"]
      summarize_bucket [OF that(2,1), of "''total''"] h
    by (simp add: initialSummary_keys contributes_third_party contributes_total)
  with h show ?thesis by blast
qed

theorem summarize_empty_domains_witness:
  "firstPartyHosts sample_ext sample_page
     (getMatchingBudget sample_ext None (mainDocumentUrl sample_page))
     \<lparr>firstParty = Some \<lparr>domains = []\<rparr>\<rparr> = [] \<and>
   (\<exists>s. summarize sample_ext sample_records sample_page None []
          \<lparr>firstParty = Some \<lparr>domains = []\<rparr>\<rparr> = Inr s \<and>
        map_of s ''third-party'' = Some \<lparr>count = 4, resourceSize = 1360, transferSize = 545\<rparr> \<and>
        map_of s ''total'' = Some \<lparr>count = 4, resourceSize = 1360, transferSize = 545\<rparr>)"
proof -
  have b: "\<forall>b opts. getMatchingBudget sample_ext None (mainDocumentUrl sample_page) = Some b \<and>
       options b = Some opts \<longrightarrow> firstPartyHostnames opts = None"
    by (simp add: sample_ext_def)
  have f: "firstParty \<lparr>firstParty = Some \<lparr>domains = []\<rparr>\<rparr> = Some \<lparr>domains = []\<rparr>"
    by simp
  have d: "domains \<lparr>domains = []\<rparr> = []"
    by simp
  have h: "firstPartyHosts sample_ext sample_page
     (getMatchingBudget sample_ext None (mainDocumentUrl sample_page))
     \<lparr>firstParty = Some \<lparr>domains = []\<rparr>\<rparr> = []"
    by (simp add: firstPartyHosts_def sample_ext_def)
  have "\<forall>r\<in>set (filter (keepRecord sample_ext [''https://example.com/favicon.ico''])
          sample_records).
      resourceType r \<notin> Some ` set object_prototype_keys \<and>
      (firstPartyHosts sample_ext sample_page
         (getMatchingBudget sample_ext None (mainDocumentUrl sample_page))
         \<lparr>firstParty = Some \<lparr>domains = []\<rparr>\<rparr> = [] \<or>
       url_hostname sample_ext (url r) \<noteq> None)"
    unfolding h by (simp add: sample_survivors object_prototype_keys_def)
  from summarize_returns [OF sample_favicons this] obtain s where
    s: "summarize sample_ext sample_records sample_page None []
          \<lparr>firstParty = Some \<lparr>domains = []\<rparr>\<rparr> = Inr s"
    by blast
  show ?thesis
    using s sample_favicons
      summarize_empty_domains [OF b f d, of "[]" sample_records]
    by (auto simp: sample_survivors sumEntry_def)
qed

text \<open>
  C2: the records that a returned summary counts are exactly the records that are not
  dropped, where a record is dropped if and only if it is classified \<^verbatim>\<open>other\<close> and its url
  is a favicon candidate, or the non-network predicate holds for it: every bucket holds
  the count and the sums of the records not dropped that contribute to it. In particular a
  record whose url is a favicon candidate and whose type is not \<^verbatim>\<open>other\<close> is kept (unless
  it is a non-network request) and is counted in the bucket of its type and in \<^verbatim>\<open>total\<close>.
\<close>

theorem summarize_drops_exactly:
  assumes "determineFaviconUrls (url_resolve ext) LinkElements (mainDocumentUrl page) = Inr faviconUrls"
    and "summarize ext networkRecords page budgets LinkElements classifiedEntities = Inr s"
    and "hosts = firstPartyHosts ext page (getMatchingBudget ext budgets (mainDocumentUrl page))
           classifiedEntities"
    and "kept = filter (\<lambda>r. \<not> ((determineResourceType r = Str ''other'' \<and>
                                 url r \<in> set faviconUrls) \<or>
                               isNonNetworkRequest ext r)) networkRecords"
  shows
    "(\<forall>r. keepRecord ext faviconUrls r \<longleftrightarrow>
        \<not> ((determineResourceType r = Str ''other'' \<and> url r \<in> set faviconUrls) \<or>
           isNonNetworkRequest ext r)) \<and>
     (\<forall>k\<in>set (map fst s).
        map_of s k = Some (sumEntry (filter (contributes (url_hostname ext) hosts k) kept))) \<and>
     (\<forall>r\<in>set networkRecords. \<forall>key.
        url r \<in> set faviconUrls \<and> determineResourceType r = Str key \<and> key \<noteq> ''other'' \<and>
        \<not> isNonNetworkRequest ext r \<longrightarrow>
          r \<in> set kept \<and>
          r \<in> set (filter (contributes (url_hostname ext) hosts key) kept) \<and>
          r \<in> set (filter (contributes (url_hostname ext) hosts ''total'') kept) \<and>
          (\<exists>e tot. map_of s key = Some e \<and> 1 \<le> count e \<and>
             map_of s ''total'' = Some tot \<and> 1 \<le> count tot))"
proof (intro conjI allI ballI impI)
  fix r
  show "keepRecord ext faviconUrls r \<longleftrightarrow>
        \<not> ((determineResourceType r = Str ''other'' \<and> url r \<in> set faviconUrls) \<or>
           isNonNetworkRequest ext r)"
    by (simp add: keepRecord_iff spec_dropped_def)
next
  fix k assume "k \<in> set (map fst s)"
  then have k: "k \<in> set (map fst initialSummary)"
    using summarize_keys [OF assms(2)] by simp
  have "kept = filter (keepRecord ext faviconUrls) networkRecords"
    using assms(4) by (simp add: filter_keepRecord spec_dropped_def)
  with summarize_bucket [OF assms(2,1) k] assms(3)
  show "map_of s k = Some (sumEntry (filter (contributes (url_hostname ext) hosts k) kept))"
    by simp
next
  fix r key
  assume r: "r \<in> set networkRecords"
    and h: "url r \<in> set faviconUrls \<and> determineResourceType r = Str key \<and> key \<noteq> ''other'' \<and>
        \<not> isNonNetworkRequest ext r"
  have kept: "kept = filter (keepRecord ext faviconUrls) networkRecords"
    using assms(4) by (simp add: filter_keepRecord spec_dropped_def)
  show in_kept: "r \<in> set kept"
    using r h assms(4) by simp
  show in_key: "r \<in> set (filter (contributes (url_hostname ext) hosts key) kept)"
    using in_kept h by (simp add: contributes_def)
  show in_total: "r \<in> set (filter (contributes (url_hostname ext) hosts ''total'') kept)"
    using in_kept by (simp add: contributes_total)
  have key: "key \<in> set (map fst initialSummary)"
    using determineResourceType_cases [of r] h by (auto simp: initialSummary_def)
  have tot: "''total'' \<in> set (map fst initialSummary)"
    by (simp add: initialSummary_def)
  have e: "map_of s key =
      Some (sumEntry (filter (contributes (url_hostname ext) hosts key) kept))"
    using summarize_bucket [OF assms(2,1) key] assms(3) kept by simp
  have t: "map_of s ''total'' =
      Some (sumEntry (filter (contributes (url_hostname ext) hosts ''total'') kept))"
    using summarize_bucket [OF assms(2,1) tot] assms(3) kept by simp
  have pos: "1 \<le> count (sumEntry xs)" if "r \<in> set xs" for xs
    using that by (cases xs) (auto simp: sumEntry_def)
  from e t pos [OF in_key] pos [OF in_total]
  show "\<exists>e tot. map_of s key = Some e \<and> 1 \<le> count e \<and>
             map_of s ''total'' = Some tot \<and> 1 \<le> count tot"
    by blast
qed

lemma sample_favicon_summary:
  "summarize sample_ext sample_favicon_records sample_page None [] \<lparr>firstParty = None\<rparr> =
     Inr sample_favicon_result"
  by (simp add: sample_defs sample_favicon_records_def model_defs sample_favicon_result_def)

lemma sample_favicon_kept:
  "filter (\<lambda>r. \<not> ((determineResourceType r = Str ''other'' \<and>
                     url r \<in> set [''https://example.com/favicon.ico'']) \<or>
                   isNonNetworkRequest sample_ext r)) sample_favicon_records =
     [\<lparr>url = ''https://example.com/favicon.ico'', resourceType = Some ''Image'',
       resourceSize = 7, transferSize = 3\<rparr>]"
  by (simp add: sample_ext_def sample_favicon_records_def determineResourceType_def
      requestToResourceType_def)

theorem summarize_drops_exactly_witness:
  "determineFaviconUrls (url_resolve sample_ext) [] (mainDocumentUrl sample_page) =
     Inr [''https://example.com/favicon.ico''] \<and>
   summarize sample_ext sample_favicon_records sample_page None [] \<lparr>firstParty = None\<rparr> =
     Inr sample_favicon_result \<and>
   map_of sample_favicon_result ''image'' =
     Some \<lparr>count = 1, resourceSize = 7, transferSize = 3\<rparr> \<and>
   map_of sample_favicon_result ''total'' =
     Some \<lparr>count = 1, resourceSize = 7, transferSize = 3\<rparr> \<and>
   map_of sample_favicon_result ''other'' =
     Some \<lparr>count = 0, resourceSize = 0, transferSize = 0\<rparr>"
proof -
  note t = summarize_drops_exactly [OF sample_favicons sample_favicon_summary refl refl]
  have keys: "''image'' \<in> set (map fst sample_favicon_result)"
    "''total'' \<in> set (map fst sample_favicon_result)"
    "''other'' \<in> set (map fst sample_favicon_result)"
    by (simp_all add: sample_favicon_result_def)
  have c: "contributes h hs ''image'' \<lparr>url = ''https://example.com/favicon.ico'',
        resourceType = Some ''Image'', resourceSize = 7, transferSize = 3\<rparr>"
    "\<not> contributes h hs ''other'' \<lparr>url = ''https://example.com/favicon.ico'',
        resourceType = Some ''Image'', resourceSize = 7, transferSize = 3\<rparr>" for h hs
    by (simp_all add: contributes_def determineResourceType_def requestToResourceType_def)
  from t keys have
    "map_of sample_favicon_result ''image'' = Some (sumEntry (filter
        (contributes (url_hostname sample_ext)
          (firstPartyHosts sample_ext sample_page
            (getMatchingBudget sample_ext None (mainDocumentUrl sample_page))
            \<lparr>firstParty = None\<rparr>) ''image'')
        [\<lparr>url = ''https://example.com/favicon.ico'', resourceType = Some ''Image'',
          resourceSize = 7, transferSize = 3\<rparr>]))"
    "map_of sample_favicon_result ''total'' = Some (sumEntry (filter
        (contributes (url_hostname sample_ext)
          (firstPartyHosts sample_ext sample_page
            (getMatchingBudget sample_ext None (mainDocumentUrl sample_page))
            \<lparr>firstParty = None\<rparr>) ''total'')
        [\<lparr>url = ''https://example.com/favicon.ico'', resourceType = Some ''Image'',
          resourceSize = 7, transferSize = 3\<rparr>]))"
    "map_of sample_favicon_result ''other'' = Some (sumEntry (filter
        (contributes (url_hostname sample_ext)
          (firstPartyHosts sample_ext sample_page
            (getMatchingBudget sample_ext None (mainDocumentUrl sample_page))
            \<lparr>firstParty = None\<rparr>) ''other'')
        [\<lparr>url = ''https://example.com/favicon.ico'', resourceType = Some ''Image'',
          resourceSize = 7, transferSize = 3\<rparr>]))"
    unfolding sample_favicon_kept by blast+
  then show ?thesis
    using sample_favicons sample_favicon_summary
    by (simp add: c contributes_total sumEntry_def)
qed

end
